theory Spec2Isabelle
  imports Complex_Main
begin

section \<open>Python values, exceptions and results\<close>

text \<open>
  The request parameters arrive as decoded JSON, so a parameter can be any Python value.
  The embedding keeps the run-time type, because the validators test it
  (\<^verbatim>\<open>type(x) is not list\<close>, \<^verbatim>\<open>type(x) not in [int, float]\<close>): \<open>VBool\<close> is
  a type of its own, as \<^verbatim>\<open>type(True)\<close> is \<^verbatim>\<open>bool\<close>. A float is the real number it
  denotes; the code only compares floats, and comparison of finite floats (also against
  ints) is exact in Python. The float \<^verbatim>\<open>nan\<close>, which the value decode uses as its
  missing-value sentinel, is the constructor \<open>VNaN\<close>; the infinities are left out.
\<close>

datatype pyval =
    VNone
  | VBool bool
  | VInt int
  | VFloat real
  | VNaN
  | VStr string
  | VList "pyval list"
  | VTuple "pyval list"
  | VDict "(string \<times> pyval) list"

text \<open>
  Modelled from the spec: the class \<^verbatim>\<open>StatusException\<close> (utils/status_exception.py) is
  not among the sources. It is raised as \<^verbatim>\<open>StatusException(status, message)\<close> with one of
  the class constants \<^verbatim>\<open>DENIED\<close>, \<^verbatim>\<open>INVALID\<close>, \<^verbatim>\<open>ERROR\<close>, it is read back
  through \<^verbatim>\<open>err.status\<close> and \<^verbatim>\<open>str(err)\<close>, and the spec names the three kinds
  AccessDenied, InvalidArgument and UpstreamError/UnexpectedError. \<open>OK\<close> is the status of
  a successful summary.
\<close>

datatype status_code = OK | DENIED | INVALID | ERROR

datatype exc_class =
    IndexError | TypeError | ValueError | OverflowError | AttributeError | KeyError
  | FileNotFoundError | IsADirectoryError | JSONDecodeError | ConnectionError
  | UnboundLocalError | ProcessorExecuteError

datatype py_exc =
    StatusException status_code string
  | PyExc exc_class string

fun str_exc :: "py_exc \<Rightarrow> string" where
  "str_exc (StatusException s m) = m"
| "str_exc (PyExc c m) = m"

text \<open>A computation that may raise: \<open>Inl\<close> is the exception, \<open>Inr\<close> the value.\<close>

type_synonym 'a result = "py_exc + 'a"

definition and_then :: "'a result \<Rightarrow> ('a \<Rightarrow> 'b result) \<Rightarrow> 'b result" where
  "and_then m f = (case m of Inl e \<Rightarrow> Inl e | Inr x \<Rightarrow> f x)"

definition raise_status :: "status_code \<Rightarrow> string \<Rightarrow> 'a result" where
  "raise_status s m = Inl (StatusException s m)"

definition startswith :: "string \<Rightarrow> string \<Rightarrow> bool" where
  "startswith s p = (take (length p) s = p)"

definition endswith :: "string \<Rightarrow> string \<Rightarrow> bool" where
  "endswith s p = (length p \<le> length s \<and> drop (length s - length p) s = p)"

section \<open>Naive and aware datetimes\<close>

text \<open>
  A \<^verbatim>\<open>datetime.datetime\<close>: the date as its proleptic Gregorian ordinal (0001-01-01 is
  day 1, as \<^verbatim>\<open>date.toordinal\<close>), the time of day field by field, and \<open>tzinfo\<close> as the
  UTC offset in microseconds (\<open>None\<close> for a naive datetime). The program never reads
  year, month or day: it replaces minute, second and microsecond, adds and subtracts
  timedeltas, and compares.
\<close>

record pydatetime =
  ordinal :: int
  hour :: int
  minute :: int
  second :: int
  microsecond :: int
  tzinfo :: "int option"

definition to_us :: "pydatetime \<Rightarrow> int" where
  "to_us d = (((ordinal d * 24 + hour d) * 60 + minute d) * 60 + second d) * 1000000
              + microsecond d"

definition from_us :: "int \<Rightarrow> int option \<Rightarrow> pydatetime" where
  "from_us n tz = \<lparr> ordinal = n div 86400000000,
                    hour = (n div 3600000000) mod 24,
                    minute = (n div 60000000) mod 60,
                    second = (n div 1000000) mod 60,
                    microsecond = n mod 1000000,
                    tzinfo = tz \<rparr>"

text \<open>
  \<^verbatim>\<open>datetime(y, m, d, h, mi, s)\<close>, a naive datetime; the ordinal of its date as the
  library computes it (\<^verbatim>\<open>_ymd2ord\<close>).
\<close>

definition days_before_year :: "int \<Rightarrow> int" where
  "days_before_year y = (y - 1) * 365 + (y - 1) div 4 - (y - 1) div 100 + (y - 1) div 400"

definition is_leap :: "int \<Rightarrow> bool" where
  "is_leap y = (y mod 4 = 0 \<and> (y mod 100 \<noteq> 0 \<or> y mod 400 = 0))"

definition days_before_month :: "int \<Rightarrow> int \<Rightarrow> int" where
  "days_before_month y m =
     [0, 31, 59, 90, 120, 151, 181, 212, 243, 273, 304, 334] ! nat (m - 1)
       + (if m > 2 \<and> is_leap y then 1 else 0)"

definition ymd2ord :: "int \<Rightarrow> int \<Rightarrow> int \<Rightarrow> int" where
  "ymd2ord y m d = days_before_year y + days_before_month y m + d"

definition datetime :: "int \<Rightarrow> int \<Rightarrow> int \<Rightarrow> int \<Rightarrow> int \<Rightarrow> int \<Rightarrow> pydatetime" where
  "datetime y m d h mi s =
     \<lparr> ordinal = ymd2ord y m d, hour = h, minute = mi, second = s, microsecond = 0,
       tzinfo = None \<rparr>"

text \<open>\<^verbatim>\<open>datetime.min\<close> is 0001-01-01T00:00:00 and \<^verbatim>\<open>datetime.max\<close> is
  9999-12-31T23:59:59.999999 (ordinal 3652059).\<close>

definition min_us :: int where
  "min_us = 86400000000"

definition max_us :: int where
  "max_us = 3652060 * 86400000000 - 1"

definition hours :: "int \<Rightarrow> int" where
  "hours n = n * 3600000000"

text \<open>\<^verbatim>\<open>d + timedelta\<close>: raises OverflowError outside the representable years.\<close>

definition dt_add :: "pydatetime \<Rightarrow> int \<Rightarrow> pydatetime result" where
  "dt_add d delta =
     (let n = to_us d + delta
      in if n < min_us \<or> max_us < n then Inl (PyExc OverflowError ''date value out of range'')
         else Inr (from_us n (tzinfo d)))"

text \<open>
  Ordering: two naive datetimes compare field by field, two aware ones compare as UTC
  instants, and a naive one against an aware one raises TypeError.
\<close>

definition dt_less :: "pydatetime \<Rightarrow> pydatetime \<Rightarrow> bool result" where
  "dt_less a b =
     (case (tzinfo a, tzinfo b) of
        (None, None) \<Rightarrow> Inr (to_us a < to_us b)
      | (Some oa, Some ob) \<Rightarrow> Inr (to_us a - oa < to_us b - ob)
      | _ \<Rightarrow> Inl (PyExc TypeError ''can't compare offset-naive and offset-aware datetimes''))"

text \<open>\<^verbatim>\<open>d.replace(tzinfo=None)\<close>.\<close>

definition naive :: "pydatetime \<Rightarrow> pydatetime" where
  "naive d = d\<lparr> tzinfo := None \<rparr>"

text \<open>The truncation of lines 113-114:
  \<^verbatim>\<open>t.replace(minute=(t.minute // 5) * 5, second=0, microsecond=0)\<close>.\<close>

definition truncate_5min :: "pydatetime \<Rightarrow> pydatetime" where
  "truncate_5min t = t\<lparr> minute := (minute t div 5) * 5, second := 0, microsecond := 0 \<rparr>"

section \<open>The water-level retriever: argument validation\<close>

text \<open>
  The keyword arguments of \<^verbatim>\<open>argument_validation\<close>; \<^verbatim>\<open>kwargs.get(k, None)\<close> makes an
  absent argument \<open>VNone\<close>.
\<close>

record retriever_kwargs =
  kw_lat_range :: pyval
  kw_long_range :: pyval
  kw_time_range :: pyval
  kw_out_format :: pyval
  kw_bucket_destination :: pyval
  kw_out :: pyval

record validated_args =
  lat_range :: pyval
  long_range :: pyval
  time_start :: pydatetime
  time_end :: pydatetime
  out_format :: pyval
  bucket_destination :: pyval
  out :: pyval

text \<open>
  What the program changes outside itself: the directories and files that exist, the
  hour offsets requested from the upstream service (in order), and the uploads made.
  \<^verbatim>\<open>os.makedirs\<close> and writing a file are modelled on a filesystem that refuses
  nothing but a missing parent directory and a file path that is a directory.
\<close>

record sys_state =
  dirs :: "string list"
  files :: "string list"
  requests :: "int list"
  uploads :: "(string \<times> string) list"

text \<open>\<^verbatim>\<open>x[i]\<close> on a list or tuple, for the two indices the code uses.\<close>

definition index_error :: "pyval \<Rightarrow> py_exc" where
  "index_error v = (case v of VTuple _ \<Rightarrow> PyExc IndexError ''tuple index out of range''
                            | _ \<Rightarrow> PyExc IndexError ''list index out of range'')"

definition items :: "pyval \<Rightarrow> pyval list" where
  "items v = (case v of VList xs \<Rightarrow> xs | VTuple xs \<Rightarrow> xs | _ \<Rightarrow> [])"

definition is_list_or_tuple :: "pyval \<Rightarrow> bool" where
  "is_list_or_tuple v = (case v of VList _ \<Rightarrow> True | VTuple _ \<Rightarrow> True | _ \<Rightarrow> False)"

definition subscript :: "pyval \<Rightarrow> nat \<Rightarrow> pyval result" where
  "subscript v i = (if i < length (items v) then Inr (items v ! i) else Inl (index_error v))"

text \<open>Lines 66-67: \<^verbatim>\<open>time_start\<close> and \<^verbatim>\<open>time_end\<close> are taken out of \<^verbatim>\<open>time_range\<close>
  before any check runs.\<close>

definition unpack_time_range :: "pyval \<Rightarrow> (pyval \<times> pyval) result" where
  "unpack_time_range tr =
     (if is_list_or_tuple tr
      then and_then (subscript tr 0) (\<lambda>ts. and_then (subscript tr 1) (\<lambda>te. Inr (ts, te)))
      else Inr (tr, VNone))"

text \<open>
  \<^verbatim>\<open>type(x) in [int, float]\<close> (\<^verbatim>\<open>nan\<close> is a float), the number an int or a finite float
  denotes, and the comparisons \<^verbatim>\<open><\<close> and \<^verbatim>\<open><=\<close> on ints and floats, which are false
  as soon as one side is \<^verbatim>\<open>nan\<close>.
\<close>

definition is_int_or_float :: "pyval \<Rightarrow> bool" where
  "is_int_or_float v = (case v of VInt _ \<Rightarrow> True | VFloat _ \<Rightarrow> True | VNaN \<Rightarrow> True
                        | _ \<Rightarrow> False)"


definition num :: "pyval \<Rightarrow> real" where
  "num v = (case v of VInt i \<Rightarrow> real_of_int i | VFloat r \<Rightarrow> r | _ \<Rightarrow> 0)"

definition py_less :: "pyval \<Rightarrow> pyval \<Rightarrow> bool" where
  "py_less a b = (a \<noteq> VNaN \<and> b \<noteq> VNaN \<and> num a < num b)"

definition py_less_eq :: "pyval \<Rightarrow> pyval \<Rightarrow> bool" where
  "py_less_eq a b = (a \<noteq> VNaN \<and> b \<noteq> VNaN \<and> num a \<le> num b)"

text \<open>Lines 72-80 and 82-90: the same four checks, with the bound 90 or 180.\<close>

definition check_range :: "string \<Rightarrow> real \<Rightarrow> string \<Rightarrow> pyval \<Rightarrow> unit result" where
  "check_range name bound bound_text r =
     (case r of
        VNone \<Rightarrow> Inr ()
      | VList xs \<Rightarrow>
          (if length xs \<noteq> 2
           then raise_status INVALID (name @ '' must be a list of 2 elements'')
           else if \<not> is_int_or_float (xs ! 0) \<or> \<not> is_int_or_float (xs ! 1)
           then raise_status INVALID (name @ '' elements must be float'')
           else if py_less (xs ! 0) (VFloat (- bound)) \<or> py_less (VFloat bound) (xs ! 0)
                 \<or> py_less (xs ! 1) (VFloat (- bound)) \<or> py_less (VFloat bound) (xs ! 1)
           then raise_status INVALID (name @ '' elements must be in the range '' @ bound_text)
           else if py_less (xs ! 1) (xs ! 0)
           then raise_status INVALID (name @ ''[0] must be less than '' @ name @ ''[1]'')
           else Inr ())
      | _ \<Rightarrow> raise_status INVALID (name @ '' must be a list of 2 elements''))"

definition check_lat_range :: "pyval \<Rightarrow> unit result" where
  "check_lat_range = check_range ''lat_range'' 90 ''[-90, 90]''"

definition check_long_range :: "pyval \<Rightarrow> unit result" where
  "check_long_range = check_range ''long_range'' 180 ''[-180, 180]''"

text \<open>
  \<^verbatim>\<open>datetime.fromisoformat\<close> is the library's parser; the model takes it as a
  parameter \<open>fromiso\<close>, \<open>None\<close> being its ValueError.
\<close>

type_synonym iso_parser = "string \<Rightarrow> pydatetime option"

text \<open>Lines 92-100.\<close>

definition parse_time_start :: "iso_parser \<Rightarrow> pyval \<Rightarrow> pydatetime result" where
  "parse_time_start fromiso ts =
     (case ts of
        VNone \<Rightarrow> raise_status INVALID ''Cannot process without a time valued''
      | VStr s \<Rightarrow>
          (case fromiso s of
             None \<Rightarrow> raise_status INVALID ''time_start must be a valid datetime iso-format string''
           | Some d \<Rightarrow> Inr d)
      | _ \<Rightarrow> raise_status INVALID ''time_start must be a string'')"

text \<open>Lines 102-111: \<open>None\<close> when \<^verbatim>\<open>time_end\<close> is absent.\<close>

definition parse_time_end :: "iso_parser \<Rightarrow> pydatetime \<Rightarrow> pyval \<Rightarrow> pydatetime option result" where
  "parse_time_end fromiso t0 te =
     (case te of
        VNone \<Rightarrow> Inr None
      | VStr s \<Rightarrow>
          (case fromiso s of
             None \<Rightarrow> raise_status INVALID ''time_end must be a valid datetime iso-format string''
           | Some d \<Rightarrow>
               and_then (dt_less d t0) (\<lambda>inverted.
                 if inverted then raise_status INVALID ''time_start must be less than time_end''
                 else Inr (Some d)))
      | _ \<Rightarrow> raise_status INVALID ''time_end must be a string'')"

text \<open>Lines 113-116. \<open>now\<close> is the reading of \<^verbatim>\<open>datetime.now(tz=utc)\<close>, by its UTC
  fields.\<close>

definition truncate_window ::
  "pydatetime \<Rightarrow> pydatetime \<Rightarrow> pydatetime option \<Rightarrow> (pydatetime \<times> pydatetime) result" where
  "truncate_window now t0 t1 =
     (let ts = truncate_5min t0
      in and_then (case t1 of Some d \<Rightarrow> Inr (truncate_5min d) | None \<Rightarrow> dt_add ts (hours 1))
           (\<lambda>te. and_then (dt_add now (- hours 48))
             (\<lambda>limit. and_then (dt_less te (naive limit))
               (\<lambda>too_old. if too_old
                           then raise_status INVALID ''Time range must be within the last 48 hours''
                           else Inr (ts, te)))))"

text \<open>Lines 118-124.\<close>

definition check_out_format :: "pyval \<Rightarrow> pyval result" where
  "check_out_format f =
     (case f of
        VNone \<Rightarrow> Inr (VStr ''geojson'')
      | VStr s \<Rightarrow> (if s \<noteq> ''geojson''
                   then raise_status INVALID ''out_format must be one of [\"geojson\"]''
                   else Inr (VStr s))
      | _ \<Rightarrow> raise_status INVALID ''out_format must be a string or null'')"

text \<open>Lines 126-130.\<close>

definition check_bucket_destination :: "pyval \<Rightarrow> unit result" where
  "check_bucket_destination b =
     (case b of
        VNone \<Rightarrow> Inr ()
      | VStr s \<Rightarrow> (if \<not> startswith s ''s3://''
                   then raise_status INVALID ''bucket_destination must start with \"s3://\"''
                   else Inr ())
      | _ \<Rightarrow> raise_status INVALID ''bucket_destination must be a string'')"

text \<open>\<^verbatim>\<open>os.path.split(p)[0]\<close> on POSIX: the text before the last slash, without its
  trailing slashes unless it is made of slashes only.\<close>

definition rstrip_slash :: "string \<Rightarrow> string" where
  "rstrip_slash s = rev (dropWhile (\<lambda>c. c = CHR ''/'') (rev s))"

definition split_head :: "string \<Rightarrow> string" where
  "split_head p =
     (let h = rev (dropWhile (\<lambda>c. c \<noteq> CHR ''/'') (rev p))
      in if h \<noteq> [] \<and> \<not> (\<forall>c \<in> set h. c = CHR ''/'') then rstrip_slash h else h)"

definition basename :: "string \<Rightarrow> string" where
  "basename p = rev (takeWhile (\<lambda>c. c \<noteq> CHR ''/'') (rev p))"

text \<open>\<^verbatim>\<open>os.path.exists\<close> on a path string.\<close>

definition os_path_exists :: "sys_state \<Rightarrow> string \<Rightarrow> bool" where
  "os_path_exists st p = (p \<in> set (dirs st) \<or> p \<in> set (files st))"

text \<open>Lines 132-139: the only step with an effect, the parent directory of \<^verbatim>\<open>out\<close>
  (of the directories that \<^verbatim>\<open>os.makedirs\<close> creates, the state records the last).\<close>

definition check_out :: "sys_state \<Rightarrow> pyval \<Rightarrow> unit result \<times> sys_state" where
  "check_out fs out_arg =
     (case out_arg of
        VNone \<Rightarrow> (Inr (), fs)
      | VStr s \<Rightarrow>
          (if \<not> endswith s ''.geojson''
           then (raise_status INVALID ''out must end with \".geojson\"'', fs)
           else (let dirname = split_head s
                 in if dirname \<noteq> '''' \<and> \<not> os_path_exists fs dirname
                    then (Inr (), fs\<lparr> dirs := dirname # dirs fs \<rparr>)
                    else (Inr (), fs)))
      | _ \<Rightarrow> (raise_status INVALID ''out must be a string'', fs))"

text \<open>\<^verbatim>\<open>_ARPAVWaterLevelRetriever.argument_validation\<close>, in the order of the source.\<close>

definition argument_validation ::
  "iso_parser \<Rightarrow> pydatetime \<Rightarrow> sys_state \<Rightarrow> retriever_kwargs \<Rightarrow> validated_args result \<times> sys_state"
where
  "argument_validation fromiso now fs kw =
     (case
        and_then (unpack_time_range (kw_time_range kw)) (\<lambda>(ts_raw, te_raw).
        and_then (check_lat_range (kw_lat_range kw)) (\<lambda>_.
        and_then (check_long_range (kw_long_range kw)) (\<lambda>_.
        and_then (parse_time_start fromiso ts_raw) (\<lambda>t0.
        and_then (parse_time_end fromiso t0 te_raw) (\<lambda>t1.
        and_then (truncate_window now t0 t1) (\<lambda>(ts, te).
        and_then (check_out_format (kw_out_format kw)) (\<lambda>fmt.
        and_then (check_bucket_destination (kw_bucket_destination kw)) (\<lambda>_.
          Inr (ts, te, fmt)))))))))
      of
        Inl e \<Rightarrow> (Inl e, fs)
      | Inr (ts, te, fmt) \<Rightarrow>
          (case check_out fs (kw_out kw) of
             (Inl e, fs') \<Rightarrow> (Inl e, fs')
           | (Inr _, fs') \<Rightarrow>
               (Inr \<lparr> lat_range = kw_lat_range kw, long_range = kw_long_range kw,
                      time_start = ts, time_end = te, out_format = fmt,
                      bucket_destination = kw_bucket_destination kw, out = kw_out kw \<rparr>,
                fs')))"

section \<open>The water-level retriever: fetching and filtering\<close>

text \<open>
  One row of the upstream \<^verbatim>\<open>data\<close> array, by the columns of \<^verbatim>\<open>_properties\<close>. The
  station code is of any ordered type \<open>'k\<close> (\<open>None\<close> is a null code); the coordinates are
  numbers; the other station columns are JSON values. \<open>sensor_row\<close> is the row of the
  frame that \<^verbatim>\<open>retrieve_data\<close> returns: \<^verbatim>\<open>dataora\<close> renamed to \<^verbatim>\<open>date_time\<close> and
  parsed, \<^verbatim>\<open>valore\<close> decoded.
\<close>

record 'k station_columns =
  codice_stazione :: "'k option"
  codseqst :: pyval
  nome_stazione :: pyval
  longitudine :: real
  latitudine :: real
  quota :: pyval
  nome_sensore :: pyval
  misura :: pyval
  gestore :: pyval
  provincia :: pyval

record 'k api_row = "'k station_columns" +
  dataora :: "string option"
  valore_raw :: pyval

record 'k sensor_row = "'k station_columns" +
  date_time :: "pydatetime option"
  valore :: pyval

record response =
  resp_status :: int
  resp_text :: string

text \<open>
  The libraries and services the retriever calls, as parameters of the model:
  \<^verbatim>\<open>datetime.fromisoformat\<close>, the successive readings of \<^verbatim>\<open>datetime.now\<close>,
  \<^verbatim>\<open>requests.get\<close> for an hour offset, the rows that \<^verbatim>\<open>response.json().get('data', [])\<close>
  and \<^verbatim>\<open>pd.DataFrame\<close> read out of a response, \<^verbatim>\<open>json.loads\<close>,
  \<^verbatim>\<open>datetime.isoformat\<close>, \<^verbatim>\<open>module_s3.s3_upload\<close>, the working directory and the
  environment variable \<^verbatim>\<open>INT_API_TOKEN\<close> (\<open>None\<close> when it is unset).
\<close>

record 'k world =
  fromisoformat :: iso_parser
  clock :: "nat \<Rightarrow> pydatetime"
  http_get :: "int \<Rightarrow> response result"
  data_rows :: "response \<Rightarrow> 'k api_row list result"
  json_loads :: "pyval \<Rightarrow> pyval result"
  isoformat :: "pydatetime \<Rightarrow> string"
  s3_upload :: "string \<Rightarrow> string \<Rightarrow> bool"
  getcwd :: string
  int_api_token :: "string option"

text \<open>\<^verbatim>\<open>str(n)\<close> for an integer.\<close>

fun str_nat :: "nat \<Rightarrow> string" where
  "str_nat n = (if n < 10 then [''0123456789'' ! n]
                else str_nat (n div 10) @ [''0123456789'' ! (n mod 10)])"

declare str_nat.simps [simp del]

definition str_int :: "int \<Rightarrow> string" where
  "str_int i = (if i < 0 then CHR ''-'' # str_nat (nat (- i)) else str_nat (nat i))"

text \<open>
  \<^verbatim>\<open>a - b\<close> on datetimes, in microseconds, and the hour offset of lines 153-154,
  \<^verbatim>\<open>int((t - now).total_seconds() // 3600)\<close>: the floor of the difference in hours. The
  model divides exactly; the float that \<^verbatim>\<open>total_seconds\<close> returns agrees with it while
  the difference stays below some 140 years.
\<close>

definition dt_sub :: "pydatetime \<Rightarrow> pydatetime \<Rightarrow> int result" where
  "dt_sub a b =
     (case (tzinfo a, tzinfo b) of
        (None, None) \<Rightarrow> Inr (to_us a - to_us b)
      | (Some oa, Some ob) \<Rightarrow> Inr ((to_us a - oa) - (to_us b - ob))
      | _ \<Rightarrow> Inl (PyExc TypeError ''can't subtract offset-naive and offset-aware datetimes''))"

definition hour_delta :: "pydatetime \<Rightarrow> pydatetime \<Rightarrow> int result" where
  "hour_delta t now = and_then (dt_sub t now) (\<lambda>us. Inr (us div 3600000000))"

text \<open>
  Lines 153-157: the offsets of \<^verbatim>\<open>range(start_hour_delta, end_hour_delta + 1)\<close>. The clock
  is read once for each end of the window, \<open>now1\<close> and \<open>now2\<close>, each made naive by
  \<^verbatim>\<open>replace(tzinfo=None)\<close>.
\<close>

definition hour_buckets ::
  "pydatetime \<Rightarrow> pydatetime \<Rightarrow> pydatetime \<Rightarrow> pydatetime option \<Rightarrow> int list result" where
  "hour_buckets now1 now2 ts te =
     and_then (hour_delta ts (naive now1)) (\<lambda>start_hour_delta.
       case te of
         None \<Rightarrow> Inl (PyExc TypeError ''unsupported operand type(s) for -: NoneType and datetime'')
       | Some t \<Rightarrow> and_then (hour_delta t (naive now2)) (\<lambda>end_hour_delta.
                    Inr [start_hour_delta ..end_hour_delta]))"

definition upstream_error :: "response \<Rightarrow> py_exc" where
  "upstream_error r = StatusException ERROR
     (''Failed to retrieve data from ARPAV service: '' @ str_int (resp_status r)
        @ '' - '' @ resp_text r)"

text \<open>
  The loop of lines 157-168: one GET for each offset, in order; a status other than 200
  raises at once. The state records every request made.
\<close>

fun fetch_hours ::
  "'k world \<Rightarrow> int list \<Rightarrow> sys_state \<Rightarrow> 'k api_row list list result \<times> sys_state" where
  "fetch_hours w [] st = (Inr [], st)"
| "fetch_hours w (h # hs) st =
     (let st1 = st\<lparr> requests := requests st @ [h] \<rparr>
      in case http_get w h of
           Inl e \<Rightarrow> (Inl e, st1)
         | Inr resp \<Rightarrow>
             if resp_status resp \<noteq> 200 then (Inl (upstream_error resp), st1)
             else (case data_rows w resp of
                     Inl e \<Rightarrow> (Inl e, st1)
                   | Inr df \<Rightarrow>
                       (case fetch_hours w hs st1 of
                          (Inl e, st2) \<Rightarrow> (Inl e, st2)
                        | (Inr dfs, st2) \<Rightarrow> (Inr (df # dfs), st2))))"

text \<open>Line 170: \<^verbatim>\<open>pd.concat\<close> of no frame at all raises ValueError.\<close>

definition pd_concat :: "'a list list \<Rightarrow> 'a list result" where
  "pd_concat dfs = (if dfs = [] then Inl (PyExc ValueError ''No objects to concatenate'')
                    else Inr (concat dfs))"

text \<open>Line 173: a string is parsed, anything else (a null) is left as it is.\<close>

definition parse_dataora :: "iso_parser \<Rightarrow> string option \<Rightarrow> pydatetime option result" where
  "parse_dataora fromiso x =
     (case x of
        None \<Rightarrow> Inr None
      | Some s \<Rightarrow> (case fromiso s of
                     None \<Rightarrow> Inl (PyExc ValueError (''Invalid isoformat string: '' @ s))
                   | Some d \<Rightarrow> Inr (Some d)))"

text \<open>\<^verbatim>\<open>d.get(key, default)\<close>: only a dict has the method.\<close>

definition dict_get :: "pyval \<Rightarrow> string \<Rightarrow> pyval \<Rightarrow> pyval result" where
  "dict_get d k dflt =
     (case d of
        VDict kvs \<Rightarrow> Inr (case map_of kvs k of None \<Rightarrow> dflt | Some v \<Rightarrow> v)
      | _ \<Rightarrow> Inl (PyExc AttributeError ''object has no attribute get''))"

text \<open>Lines 175-179: \<^verbatim>\<open>extract_level\<close>, with its bare \<^verbatim>\<open>except\<close>.\<close>

definition extract_level :: "(pyval \<Rightarrow> pyval result) \<Rightarrow> pyval \<Rightarrow> pyval result" where
  "extract_level loads level =
     (case and_then (loads level) (\<lambda>d. dict_get d ''LIVELLO'' VNaN) of
        Inl e \<Rightarrow> Inr VNaN
      | Inr v \<Rightarrow> Inr v)"

fun map_result :: "('a \<Rightarrow> 'b result) \<Rightarrow> 'a list \<Rightarrow> 'b list result" where
  "map_result f [] = Inr []"
| "map_result f (x # xs) =
     and_then (f x) (\<lambda>y. and_then (map_result f xs) (\<lambda>ys. Inr (y # ys)))"

text \<open>Lines 172-180 on one row, given its parsed timestamp.\<close>

definition decode_row ::
  "'k world \<Rightarrow> 'k api_row \<times> pydatetime option \<Rightarrow> 'k sensor_row result" where
  "decode_row w rd =
     and_then (extract_level (json_loads w) (valore_raw (fst rd))) (\<lambda>v.
       Inr \<lparr> codice_stazione = codice_stazione (fst rd), codseqst = codseqst (fst rd),
              nome_stazione = nome_stazione (fst rd), longitudine = longitudine (fst rd),
              latitudine = latitudine (fst rd), quota = quota (fst rd),
              nome_sensore = nome_sensore (fst rd), misura = misura (fst rd),
              gestore = gestore (fst rd), provincia = provincia (fst rd),
              date_time = snd rd, valore = v \<rparr>)"

text \<open>
  Lines 182-188. A null timestamp satisfies no comparison. The bounds are naive here
  (the subtraction of the naive clock reading from them has succeeded), so a timestamp
  with a UTC offset cannot be compared with them and raises TypeError. A range, when
  given, is the validated two-element list.
\<close>

definition in_time_window :: "pydatetime \<Rightarrow> pydatetime option \<Rightarrow> pydatetime option \<Rightarrow> bool" where
  "in_time_window ts te d =
     (case d of
        None \<Rightarrow> False
      | Some t \<Rightarrow> to_us ts \<le> to_us t \<and> (case te of None \<Rightarrow> True | Some e \<Rightarrow> to_us t \<le> to_us e))"

definition in_range :: "pyval \<Rightarrow> real \<Rightarrow> bool" where
  "in_range r x = (case r of VNone \<Rightarrow> True
                   | _ \<Rightarrow> py_less_eq (items r ! 0) (VFloat x) \<and> py_less_eq (VFloat x) (items r ! 1))"

definition in_window ::
  "pyval \<Rightarrow> pyval \<Rightarrow> pydatetime \<Rightarrow> pydatetime option \<Rightarrow> 'k sensor_row \<Rightarrow> bool" where
  "in_window lat long ts te r =
     (in_time_window ts te (date_time r) \<and> in_range lat (latitudine r)
        \<and> in_range long (longitudine r))"

definition comparable_dates :: "'k sensor_row list \<Rightarrow> unit result" where
  "comparable_dates rows =
     (if \<exists>r \<in> set rows. case date_time r of None \<Rightarrow> False | Some t \<Rightarrow> tzinfo t \<noteq> None
      then Inl (PyExc TypeError ''Cannot compare tz-naive and tz-aware datetime-like objects'')
      else Inr ())"

text \<open>\<^verbatim>\<open>_ARPAVWaterLevelRetriever.retrieve_data\<close>.\<close>

definition retrieve_data ::
  "'k world \<Rightarrow> pydatetime \<Rightarrow> pydatetime \<Rightarrow> sys_state \<Rightarrow> pyval \<Rightarrow> pyval \<Rightarrow> pydatetime
     \<Rightarrow> pydatetime option \<Rightarrow> 'k sensor_row list result \<times> sys_state" where
  "retrieve_data w now1 now2 st lat long ts te =
     (case hour_buckets now1 now2 ts te of
        Inl e \<Rightarrow> (Inl e, st)
      | Inr hs \<Rightarrow>
          (case fetch_hours w hs st of
             (Inl e, st') \<Rightarrow> (Inl e, st')
           | (Inr hour_dfs, st') \<Rightarrow>
               (and_then (pd_concat hour_dfs) (\<lambda>df.
                and_then (map_result (\<lambda>r. parse_dataora (fromisoformat w) (dataora r)) df) (\<lambda>ds.
                and_then (map_result (decode_row w) (zip df ds)) (\<lambda>gdf.
                and_then (comparable_dates gdf) (\<lambda>_.
                  Inr (filter (in_window lat long ts te) gdf))))),
                st')))"

section \<open>The water-level retriever: the FeatureCollection\<close>

text \<open>
  \<^verbatim>\<open>groupby(by='codice_stazione')\<close> with the defaults of pandas: rows with a null key
  are dropped, the groups come in ascending key order, and the rows of a group keep the
  order of the frame. \<^verbatim>\<open>'first'\<close> takes the first value of a column that is not null,
  \<^verbatim>\<open>list\<close> all its values.
\<close>

definition station_keys :: "('k::linorder) sensor_row list \<Rightarrow> 'k list" where
  "station_keys rows = sort (remdups (List.map_filter codice_stazione rows))"

definition station_group :: "'k \<Rightarrow> 'k sensor_row list \<Rightarrow> 'k sensor_row list" where
  "station_group k rows = filter (\<lambda>r. codice_stazione r = Some k) rows"

definition is_null :: "pyval \<Rightarrow> bool" where
  "is_null v = (v = VNone \<or> v = VNaN)"

definition agg_first :: "pyval list \<Rightarrow> pyval" where
  "agg_first vs = (case filter (\<lambda>v. \<not> is_null v) vs of
                     v # _ \<Rightarrow> v
                   | [] \<Rightarrow> (case vs of v # _ \<Rightarrow> v | [] \<Rightarrow> VNone))"

text \<open>\<^verbatim>\<open>np.isnan\<close> is defined on numbers only.\<close>

definition np_isnan :: "pyval \<Rightarrow> bool result" where
  "np_isnan v =
     (case v of
        VNaN \<Rightarrow> Inr True
      | VFloat _ \<Rightarrow> Inr False
      | VInt _ \<Rightarrow> Inr False
      | VBool _ \<Rightarrow> Inr False
      | _ \<Rightarrow> Inl (PyExc TypeError ''ufunc isnan not supported for the input types''))"

text \<open>A value of the \<^verbatim>\<open>properties\<close> dict of a Feature.\<close>

datatype 'k prop_value =
    Code 'k
  | Meta pyval
  | Series "(string \<times> pyval) list"

record 'k feature =
  coordinates :: "real list"
  properties :: "(string \<times> 'k prop_value) list"

record 'k feature_collection =
  features :: "'k feature list"
  metadata :: pyval
  crs :: pyval

text \<open>Lines 230-233: one \<^verbatim>\<open>[dt.isoformat(), val if not np.isnan(val) else None]\<close>.\<close>

definition series_entry ::
  "(pydatetime \<Rightarrow> string) \<Rightarrow> pydatetime option \<times> pyval \<Rightarrow> (string \<times> pyval) result" where
  "series_entry iso_text dv =
     and_then (np_isnan (snd dv)) (\<lambda>missing.
       Inr (case fst dv of None \<Rightarrow> ''NaT'' | Some d \<Rightarrow> iso_text d,
            if missing then VNone else snd dv))"

text \<open>Lines 224-239 for the rows of one station, which are not empty.\<close>

definition build_feature ::
  "(pydatetime \<Rightarrow> string) \<Rightarrow> 'k \<Rightarrow> 'k sensor_row list \<Rightarrow> 'k feature result" where
  "build_feature iso_text k grp =
     and_then (map_result (series_entry iso_text) (map (\<lambda>r. (date_time r, valore r)) grp))
       (\<lambda>series.
          Inr \<lparr> coordinates = [longitudine (hd grp), latitudine (hd grp)],
                 properties =
                   [(''codice_stazione'', Code k),
                    (''codseqst'', Meta (agg_first (map codseqst grp))),
                    (''nome_stazione'', Meta (agg_first (map nome_stazione grp))),
                    (''quota'', Meta (agg_first (map quota grp))),
                    (''nome_sensore'', Meta (agg_first (map nome_sensore grp))),
                    (''misura'', Meta (agg_first (map misura grp))),
                    (''gestore'', Meta (agg_first (map gestore grp))),
                    (''provincia'', Meta (agg_first (map provincia grp))),
                    (''water_level'', Series series)] \<rparr>)"

definition build_metadata :: pyval where
  "build_metadata = VList [VDict [(''@name'', VStr ''water_level''),
                                  (''@alias'', VStr ''water_level''),
                                  (''@unit'', VStr ''mm''),
                                  (''@type'', VStr ''level'')]]"

definition build_crs :: pyval where
  "build_crs = VDict [(''type'', VStr ''name''),
                      (''properties'', VDict [(''name'', VStr ''urn:ogc:def:crs:OGC:1.3:CRS84'')])]"

text \<open>\<^verbatim>\<open>_ARPAVWaterLevelRetriever.data_to_feature_collection\<close>.\<close>

definition data_to_feature_collection ::
  "(pydatetime \<Rightarrow> string) \<Rightarrow> ('k::linorder) sensor_row list \<Rightarrow> 'k feature_collection result" where
  "data_to_feature_collection iso_text sensors_gdf =
     and_then (map_result (\<lambda>k. build_feature iso_text k (station_group k sensors_gdf))
                 (station_keys sensors_gdf))
       (\<lambda>fs. Inr \<lparr> features = fs,
                     metadata = VDict [(''field'', build_metadata)],
                     crs = build_crs \<rparr>)"

section \<open>The water-level retriever: run\<close>

text \<open>\<^verbatim>\<open>os.path.join\<close> of two components on POSIX.\<close>

definition os_path_join :: "string \<Rightarrow> string \<Rightarrow> string" where
  "os_path_join a b =
     (if startswith b ''/'' then b
      else if a = [] \<or> endswith a ''/'' then a @ b
      else a @ ''/'' @ b)"

text \<open>The class attribute \<^verbatim>\<open>_tmp_data_folder\<close> (line 31).\<close>

definition tmp_data_folder :: "'k world \<Rightarrow> string" where
  "tmp_data_folder w = os_path_join (getcwd w) ''ARPAVWaterLevelRetriever_water_level_tmp''"

text \<open>\<^verbatim>\<open>__init__\<close> (lines 54-55) creates the folder when it is missing.\<close>

definition retriever_init :: "'k world \<Rightarrow> sys_state \<Rightarrow> sys_state" where
  "retriever_init w st =
     (if \<not> os_path_exists st (tmp_data_folder w)
      then st\<lparr> dirs := tmp_data_folder w # dirs st \<rparr>
      else st)"

text \<open>
  Modelled from the spec: \<^verbatim>\<open>filesystem.normpath\<close> and \<^verbatim>\<open>filesystem.garbage_folders\<close>
  (utils/filesystem.py) are not among the sources. The spec names the generated file
  \<^verbatim>\<open><retriever>__<start-iso>__<end-iso>.<ext>\<close>, so \<open>normpath\<close> leaves that name as it is;
  and \<open>garbage_folders\<close> "deletes the pipeline's temporary working folder", the folder
  with everything under it.
\<close>

definition normpath :: "string \<Rightarrow> string" where
  "normpath p = p"

definition inside_folder :: "string \<Rightarrow> string \<Rightarrow> bool" where
  "inside_folder folder p = (p = folder \<or> startswith p (folder @ ''/''))"

definition garbage_folders :: "string \<Rightarrow> sys_state \<Rightarrow> sys_state" where
  "garbage_folders folder st =
     st\<lparr> dirs := filter (\<lambda>d. \<not> inside_folder folder d) (dirs st),
         files := filter (\<lambda>f. \<not> inside_folder folder f) (files st) \<rparr>"

text \<open>\<^verbatim>\<open>open(fp, 'w')\<close> with \<^verbatim>\<open>json.dump\<close>: the parent directory must exist, and the
  path must not be a directory.\<close>

definition write_file :: "string \<Rightarrow> sys_state \<Rightarrow> unit result \<times> sys_state" where
  "write_file fp st =
     (if split_head fp \<noteq> [] \<and> split_head fp \<notin> set (dirs st)
      then (Inl (PyExc FileNotFoundError (''No such file or directory: '' @ fp)), st)
      else if fp \<in> set (dirs st)
      then (Inl (PyExc IsADirectoryError (''Is a directory: '' @ fp)), st)
      else (Inr (), st\<lparr> files := fp # removeAll fp (files st) \<rparr>))"

definition str_of :: "pyval \<Rightarrow> string" where
  "str_of v = (case v of VStr s \<Rightarrow> s | _ \<Rightarrow> [])"

datatype 'k run_output =
    RawFrame "'k sensor_row list"
  | Summary "(string \<times> pyval) list"

text \<open>Lines 308-317, for the one output file.\<close>

definition store_in_bucket ::
  "'k world \<Rightarrow> string \<Rightarrow> string \<Rightarrow> sys_state \<Rightarrow> string result \<times> sys_state" where
  "store_in_bucket w bucket output_filepath st =
     (let bucket_uri = bucket @ ''/'' @ basename output_filepath;
          st1 = st\<lparr> uploads := uploads st @ [(output_filepath, bucket_uri)] \<rparr>
      in if \<not> s3_upload w output_filepath bucket_uri
         then (raise_status ERROR (''Failed to upload data to bucket '' @ bucket), st1)
         else (Inr bucket_uri, st1))"

text \<open>Lines 319-333.\<close>

definition prepare_outputs ::
  "pyval \<Rightarrow> pyval \<Rightarrow> string \<Rightarrow> string \<Rightarrow> 'k sensor_row list \<Rightarrow> 'k run_output" where
  "prepare_outputs bucket out_arg bucket_uri fp sensors_gdf =
     (if bucket \<noteq> VNone \<or> out_arg \<noteq> VNone
      then Summary ([(''status'', VStr ''OK'')]
                    @ (if bucket \<noteq> VNone then [(''uri'', VStr bucket_uri)] else [])
                    @ (if out_arg \<noteq> VNone then [(''filepath'', VStr fp)] else []))
      else RawFrame sensors_gdf)"

text \<open>
  Lines 298-337, after validation and retrieval. The validated \<^verbatim>\<open>out_format\<close> is always
  \<^verbatim>\<open>'geojson'\<close>; were it anything else, \<^verbatim>\<open>output_filespaths\<close> would be unbound where it
  is used.
\<close>

definition dispatch_outputs ::
  "('k::linorder) world \<Rightarrow> validated_args \<Rightarrow> 'k sensor_row list \<Rightarrow> sys_state
     \<Rightarrow> 'k run_output result \<times> sys_state" where
  "dispatch_outputs w v sensors_gdf st =
     (if out_format v = VStr ''geojson''
      then
        (case data_to_feature_collection (isoformat w) sensors_gdf of
           Inl e \<Rightarrow> (Inl e, st)
         | Inr feature_collection \<Rightarrow>
             (let fn = normpath (''ARPAVWaterLevelRetriever__'' @ isoformat w (time_start v)
                                   @ ''__'' @ isoformat w (time_end v) @ ''.geojson'');
                  fp = (if out v = VNone then os_path_join (tmp_data_folder w) fn
                        else str_of (out v))
              in case write_file fp st of
                   (Inl e, st1) \<Rightarrow> (Inl e, st1)
                 | (Inr _, st1) \<Rightarrow>
                     (if bucket_destination v \<noteq> VNone
                      then (case store_in_bucket w (str_of (bucket_destination v)) fp st1 of
                              (Inl e, st2) \<Rightarrow> (Inl e, st2)
                            | (Inr uri, st2) \<Rightarrow>
                                (Inr (prepare_outputs (bucket_destination v) (out v) uri fp
                                        sensors_gdf), st2))
                      else (Inr (prepare_outputs (bucket_destination v) (out v) [] fp
                                   sensors_gdf), st1))))
      else if bucket_destination v \<noteq> VNone \<or> out v \<noteq> VNone
      then (Inl (PyExc UnboundLocalError
                   ''cannot access local variable output_filespaths''), st)
      else (Inr (RawFrame sensors_gdf), st))"

text \<open>The \<^verbatim>\<open>try\<close> block of \<^verbatim>\<open>run\<close> (lines 270-337). The clock is read once by the
  validation and twice by the retrieval.\<close>

definition run_body ::
  "('k::linorder) world \<Rightarrow> sys_state \<Rightarrow> retriever_kwargs \<Rightarrow> 'k run_output result \<times> sys_state"
where
  "run_body w st kw =
     (case argument_validation (fromisoformat w) (clock w 0) st kw of
        (Inl e, st1) \<Rightarrow> (Inl e, st1)
      | (Inr v, st1) \<Rightarrow>
          (case retrieve_data w (clock w 1) (clock w 2) st1 (lat_range v) (long_range v)
                  (time_start v) (Some (time_end v)) of
             (Inl e, st2) \<Rightarrow> (Inl e, st2)
           | (Inr sensors_gdf, st2) \<Rightarrow> dispatch_outputs w v sensors_gdf st2))"

text \<open>
  \<^verbatim>\<open>_ARPAVWaterLevelRetriever.run\<close>: the \<^verbatim>\<open>except Exception\<close> clause (lines 339-340)
  wraps whatever the block raised, and the \<^verbatim>\<open>finally\<close> clause (lines 342-345) runs on
  every path.
\<close>

definition wrap_exception :: "py_exc \<Rightarrow> py_exc" where
  "wrap_exception ex = StatusException ERROR
     (''An error occurred while running the ARPAV Retriever: '' @ str_exc ex)"

definition run ::
  "('k::linorder) world \<Rightarrow> sys_state \<Rightarrow> retriever_kwargs \<Rightarrow> 'k run_output result \<times> sys_state"
where
  "run w st kw =
     (case run_body w st kw of
        (Inl ex, st1) \<Rightarrow> (Inl (wrap_exception ex), garbage_folders (tmp_data_folder w) st1)
      | (Inr outputs, st1) \<Rightarrow> (Inr outputs, garbage_folders (tmp_data_folder w) st1))"

section \<open>The processor of the host framework\<close>

text \<open>
  The attribute \<^verbatim>\<open>self._tmp_data_folder\<close> of the processor: \<^verbatim>\<open>None\<close> after
  \<^verbatim>\<open>__init__\<close>, and after line 197 the retriever class itself, which is what
  \<^verbatim>\<open>_ARPAV_RETRIEVERS[self.variable]\<close> holds.
\<close>

datatype folder_ref = NoFolder | RetrieverClass string

record processor =
  variable :: pyval
  proc_tmp_data_folder :: folder_ref

definition data_get :: "(string \<times> pyval) list \<Rightarrow> string \<Rightarrow> pyval \<Rightarrow> pyval" where
  "data_get data k dflt = (case map_of data k of None \<Rightarrow> dflt | Some v \<Rightarrow> v)"

text \<open>\<^verbatim>\<open>os.getenv("INT_API_TOKEN", "token")\<close>.\<close>

definition expected_token :: "'k world \<Rightarrow> string" where
  "expected_token w = (case int_api_token w of None \<Rightarrow> ''token'' | Some t \<Rightarrow> t)"

text \<open>A list or a dict cannot be looked up in a dict; a tuple can when its items can.\<close>

fun hashable :: "pyval \<Rightarrow> bool" where
  "hashable (VList xs) = False"
| "hashable (VDict kvs) = False"
| "hashable (VTuple xs) = list_all hashable xs"
| "hashable v = True"

text \<open>
  \<^verbatim>\<open>os.path.exists\<close> hands its argument to \<^verbatim>\<open>os.stat\<close> and turns only OSError and
  ValueError into \<^verbatim>\<open>False\<close>; for an argument that is no path, such as a class,
  \<^verbatim>\<open>os.stat\<close> raises TypeError.
\<close>

definition os_path_exists_object :: "folder_ref \<Rightarrow> sys_state \<Rightarrow> bool result" where
  "os_path_exists_object p st =
     Inl (PyExc TypeError ''stat: path should be string, bytes, os.PathLike or integer'')"

text \<open>\<^verbatim>\<open>ARPAVRetrieverProcessor.argument_validation\<close> (lines 174-199). Switching the
  log level (line 188) changes nothing the model records.\<close>

definition proc_argument_validation ::
  "'k world \<Rightarrow> (string \<times> pyval) list \<Rightarrow> processor \<Rightarrow> sys_state
     \<Rightarrow> unit result \<times> processor \<times> sys_state" where
  "proc_argument_validation w data self st =
     (let token = data_get data ''token'' VNone;
          debug = data_get data ''debug'' (VBool False)
      in if token = VNone \<or> token \<noteq> VStr (expected_token w)
         then (raise_status DENIED ''ACCESS DENIED: wrong token'', self, st)
         else if (case debug of VBool _ \<Rightarrow> False | _ \<Rightarrow> True)
         then (raise_status INVALID ''debug must be a boolean'', self, st)
         else (let var = data_get data ''variable'' VNone
               in if var = VNone
                  then (raise_status INVALID ''variable must be provided'', self, st)
                  else if \<not> hashable var
                  then (Inl (PyExc TypeError ''unhashable type''), self, st)
                  else if var \<noteq> VStr ''precipitation'' \<and> var \<noteq> VStr ''water_level''
                  then (raise_status INVALID
                          ''variable must be either \"precipitation\" or \"water_level\"'', self, st)
                  else (let self1 = self\<lparr> variable := var,
                                              proc_tmp_data_folder := RetrieverClass (str_of var) \<rparr>
                        in case os_path_exists_object (proc_tmp_data_folder self1) st of
                             Inl e \<Rightarrow> (Inl e, self1, st)
                           | Inr _ \<Rightarrow> (Inr (), self1, st))))"

text \<open>The keyword arguments that \<^verbatim>\<open>run(**data)\<close> binds; the other keys go to \<^verbatim>\<open>**kwargs\<close>.\<close>

definition kwargs_of :: "(string \<times> pyval) list \<Rightarrow> retriever_kwargs" where
  "kwargs_of data =
     \<lparr> kw_lat_range = data_get data ''lat_range'' VNone,
       kw_long_range = data_get data ''long_range'' VNone,
       kw_time_range = data_get data ''time_range'' VNone,
       kw_out_format = data_get data ''out_format'' VNone,
       kw_bucket_destination = data_get data ''bucket_destination'' VNone,
       kw_out = data_get data ''out'' VNone \<rparr>"

text \<open>
  Modelled from the spec: what \<^verbatim>\<open>filesystem.garbage_folders\<close> does with the
  processor's attribute, which is never a folder. The spec speaks of deleting the
  temporary folder only; the model lets the call delete nothing.
\<close>

definition garbage_folders_ref :: "folder_ref \<Rightarrow> sys_state \<Rightarrow> sys_state" where
  "garbage_folders_ref p st = st"

text \<open>The outputs of \<^verbatim>\<open>execute\<close>: the dict \<^verbatim>\<open>{'status': err.status, 'message': str(err)}\<close>
  of line 226, the summary of a run, or a FeatureCollection.\<close>

datatype 'k payload =
    StatusMessage status_code string
  | Dict "(string \<times> pyval) list"
  | Collection "'k feature_collection"

text \<open>
  \<^verbatim>\<open>ARPAVRetrieverProcessor.execute\<close>. The precipitation retriever is not among the
  sources; its \<^verbatim>\<open>run\<close> is the parameter \<open>precipitation_run\<close>. The result is the pair
  of the mimetype and the outputs, or the ProcessorExecuteError that line 235 raises.
\<close>

definition execute ::
  "('k::linorder) world
     \<Rightarrow> (sys_state \<Rightarrow> (string \<times> pyval) list \<Rightarrow> 'k run_output result \<times> sys_state)
     \<Rightarrow> (string \<times> pyval) list \<Rightarrow> processor \<Rightarrow> sys_state
     \<Rightarrow> (string \<times> 'k payload) result \<times> processor \<times> sys_state" where
  "execute w precipitation_run data self st =
     (case
        (case proc_argument_validation w data self st of
           (Inl e, self1, st1) \<Rightarrow> (Inl e, self1, st1)
         | (Inr _, self1, st1) \<Rightarrow>
             (case (if variable self1 = VStr ''water_level''
                    then run w (retriever_init w st1) (kwargs_of data)
                    else precipitation_run st1 data) of
                (Inl e, st2) \<Rightarrow> (Inl e, self1, st2)
              | (Inr (Summary d), st2) \<Rightarrow> (Inr (Dict d), self1, st2)
              | (Inr (RawFrame gdf), st2) \<Rightarrow>
                  (case data_to_feature_collection (isoformat w) gdf of
                     Inl e \<Rightarrow> (Inl e, self1, st2)
                   | Inr fc \<Rightarrow> (Inr (Collection fc), self1, st2))))
      of
        (Inl (StatusException s m), self1, st1) \<Rightarrow>
          (Inr (''application/json'', StatusMessage s m), self1,
           garbage_folders_ref (proc_tmp_data_folder self1) st1)
      | (Inl (PyExc c m), self1, st1) \<Rightarrow>
          (Inl (PyExc ProcessorExecuteError m), self1, st1)
      | (Inr outputs, self1, st1) \<Rightarrow>
          (Inr (''application/json'', outputs), self1,
           garbage_folders_ref (proc_tmp_data_folder self1) st1))"

section \<open>Example requests\<close>

text \<open>
  The request of the spec's scenario, a parser that knows its timestamps, and the
  arguments the validation makes of it two hours later. Then an upstream that serves
  three readings of one station (the last one after the window), one that answers 500
  for every bucket but -3, and the states and values the example runs end with.
\<close>

definition scenario_parser :: iso_parser where
  "scenario_parser s =
     (if s = ''2025-07-23T10:02:00'' then Some (datetime 2025 7 23 10 2 0)
      else if s = ''2025-07-23T10:55:00'' then Some (datetime 2025 7 23 10 55 0)
      else if s = ''2025-07-23T10:58:00'' then Some (datetime 2025 7 23 10 58 0)
      else None)"

definition scenario_kwargs :: retriever_kwargs where
  "scenario_kwargs =
     \<lparr> kw_lat_range = VNone, kw_long_range = VNone,
       kw_time_range = VList [VStr ''2025-07-23T10:02:00'', VStr ''2025-07-23T10:58:00''],
       kw_out_format = VNone, kw_bucket_destination = VNone, kw_out = VNone \<rparr>"

definition scenario_validated :: validated_args where
  "scenario_validated =
     \<lparr> lat_range = VNone, long_range = VNone,
       time_start = datetime 2025 7 23 10 0 0, time_end = datetime 2025 7 23 10 55 0,
       out_format = VStr ''geojson'', bucket_destination = VNone, out = VNone \<rparr>"

definition empty_state :: sys_state where
  "empty_state = \<lparr> dirs = [], files = [], requests = [], uploads = [] \<rparr>"

definition example_loads :: "pyval \<Rightarrow> pyval result" where
  "example_loads v =
     (case v of
        VStr s \<Rightarrow>
          (if s = ''{\"LIVELLO\": 1.5}'' then Inr (VDict [(''LIVELLO'', VFloat 1.5)])
           else if s = ''{}'' then Inr (VDict [])
           else if s = ''[1]'' then Inr (VList [VInt 1])
           else Inl (PyExc JSONDecodeError ''Expecting value''))
      | _ \<Rightarrow> Inl (PyExc TypeError ''the JSON object must be str, bytes or bytearray''))"

definition example_isoformat :: "pydatetime \<Rightarrow> string" where
  "example_isoformat d =
     (if d = datetime 2025 7 23 10 0 0 then ''2025-07-23T10:00:00''
      else if d = datetime 2025 7 23 10 2 0 then ''2025-07-23T10:02:00''
      else if d = datetime 2025 7 23 10 55 0 then ''2025-07-23T10:55:00''
      else if d = datetime 2025 7 23 10 58 0 then ''2025-07-23T10:58:00''
      else ''0001-01-01T00:00:00'')"

definition station_27 :: "int station_columns" where
  "station_27 = \<lparr> codice_stazione = Some 27, codseqst = VStr ''300000027'',
                   nome_stazione = VStr ''Ponte di Piave'', longitudine = 12.46, latitudine = 45.71,
                   quota = VInt 11, nome_sensore = VStr ''Livello idrometrico'',
                   misura = VStr ''m'', gestore = VStr ''ARPAV'', provincia = VStr ''TV'' \<rparr>"

definition api_rows :: "int api_row list" where
  "api_rows =
     [station_columns.extend station_27
        \<lparr> dataora = Some ''2025-07-23T10:02:00'', valore_raw = VStr ''{\"LIVELLO\": 1.5}'' \<rparr>,
      station_columns.extend station_27
        \<lparr> dataora = Some ''2025-07-23T10:55:00'', valore_raw = VStr ''n/a'' \<rparr>,
      station_columns.extend station_27
        \<lparr> dataora = Some ''2025-07-23T10:58:00'', valore_raw = VStr ''{\"LIVELLO\": 1.5}'' \<rparr>]"


definition ok_response :: response where
  "ok_response = \<lparr> resp_status = 200, resp_text = ''{\"data\": []}'' \<rparr>"

definition error_response :: response where
  "error_response = \<lparr> resp_status = 500, resp_text = ''Internal Server Error'' \<rparr>"

definition serving_world :: "int world" where
  "serving_world =
     \<lparr> fromisoformat = scenario_parser,
       clock = (\<lambda>n. datetime 2025 7 23 12 0 0),
       http_get = (\<lambda>h. Inr ok_response),
       data_rows = (\<lambda>r. Inr api_rows),
       json_loads = example_loads,
       isoformat = example_isoformat,
       s3_upload = (\<lambda>path uri. True),
       getcwd = ''/app'',
       int_api_token = None \<rparr>"

definition failing_world :: "int world" where
  "failing_world =
     serving_world\<lparr> http_get := (\<lambda>h. if h = - 3 then Inr ok_response else Inr error_response) \<rparr>"

definition ready_state :: sys_state where
  "ready_state = retriever_init serving_world empty_state"


definition fresh_processor :: processor where
  "fresh_processor = \<lparr> variable = VNone, proc_tmp_data_folder = NoFolder \<rparr>"

definition inverted_lat_request :: "(string \<times> pyval) list" where
  "inverted_lat_request =
     [(''token'', VStr ''token''), (''variable'', VStr ''water_level''),
      (''lat_range'', VList [VInt 10, VInt 5]),
      (''time_range'', VList [VStr ''2025-07-23T10:02:00'', VStr ''2025-07-23T10:58:00''])]"



definition noon :: pydatetime where
  "noon = datetime 2025 7 23 12 0 0"

definition swept_state :: sys_state where
  "swept_state = \<lparr> dirs = [], files = [], requests = [- 2], uploads = [] \<rparr>"


section \<open>Basic facts\<close>

lemma and_then_simps [simp]:
  "and_then (Inl e) f = Inl e" "and_then (Inr x) f = f x"
  by (simp_all add: and_then_def)

lemma raise_status_not_Inr [simp]: "raise_status s m \<noteq> Inr x" "Inr x \<noteq> raise_status s m"
  by (simp_all add: raise_status_def)

lemma and_then_Inr_iff: "and_then m f = Inr y \<longleftrightarrow> (\<exists>x. m = Inr x \<and> f x = Inr y)"
  by (cases m) simp_all



lemma str_int_500: "str_int 500 = ''500''"
  by (simp add: str_int_def str_nat.simps)

section \<open>Facts about the argument validation\<close>



lemma truncate_window_start:
  "truncate_window now t0 t1 = Inr (ts, te) \<Longrightarrow> ts = truncate_5min t0"
  by (auto simp: truncate_window_def Let_def and_then_Inr_iff split: if_splits)

lemma truncate_window_end:
  "truncate_window now t0 (Some d) = Inr (ts, te) \<Longrightarrow> te = truncate_5min d"
  by (auto simp: truncate_window_def Let_def and_then_Inr_iff split: if_splits)

lemma truncate_window_default:
  "truncate_window now t0 None = Inr (ts, te) \<Longrightarrow> dt_add ts (hours 1) = Inr te"
  by (auto simp: truncate_window_def Let_def and_then_Inr_iff split: if_splits)



lemma argument_validation_Inr:
  assumes "argument_validation fromiso now st kw = (Inr v, st')"
  shows "\<exists>ts_raw te_raw t0 t1.
           unpack_time_range (kw_time_range kw) = Inr (ts_raw, te_raw)
         \<and> check_lat_range (kw_lat_range kw) = Inr ()
         \<and> check_long_range (kw_long_range kw) = Inr ()
         \<and> parse_time_start fromiso ts_raw = Inr t0
         \<and> parse_time_end fromiso t0 te_raw = Inr t1
         \<and> truncate_window now t0 t1 = Inr (time_start v, time_end v)
         \<and> check_out_format (kw_out_format kw) = Inr (out_format v)
         \<and> check_bucket_destination (kw_bucket_destination kw) = Inr ()
         \<and> check_out st (kw_out kw) = (Inr (), st')
         \<and> lat_range v = kw_lat_range kw \<and> long_range v = kw_long_range kw
         \<and> bucket_destination v = kw_bucket_destination kw \<and> out v = kw_out kw"
  using assms unfolding argument_validation_def
  by (auto simp: and_then_Inr_iff split: sum.splits prod.splits)





lemma dt_less_Inr_naive: "dt_less a b = Inr x \<Longrightarrow> tzinfo b = None \<Longrightarrow> tzinfo a = None"
  by (auto simp: dt_less_def split: option.splits)

lemma dt_less_Inr_same: "dt_less a b = Inr x \<Longrightarrow> (tzinfo a = None) = (tzinfo b = None)"
  by (auto simp: dt_less_def split: option.splits)

lemma dt_add_tzinfo: "dt_add d n = Inr e \<Longrightarrow> tzinfo e = tzinfo d"
  by (auto simp: dt_add_def Let_def from_us_def split: if_splits)

lemma truncate_tzinfo [simp]: "tzinfo (truncate_5min d) = tzinfo d"
  by (simp add: truncate_5min_def)

lemma truncate_window_naive_end:
  "truncate_window now t0 t1 = Inr (ts, te) \<Longrightarrow> tzinfo te = None"
  by (auto simp: truncate_window_def Let_def and_then_Inr_iff naive_def
           split: if_splits dest!: dt_less_Inr_naive)

text \<open>
  The validated datetimes are naive: the comparison of line 115 raises otherwise.
\<close>

lemma validated_naive:
  assumes "argument_validation fromiso now st kw = (Inr v, st')"
  shows "tzinfo (time_start v) = None \<and> tzinfo (time_end v) = None"
proof -
  from argument_validation_Inr [OF assms] obtain ts_raw te_raw t0 t1 where
    p1: "parse_time_end fromiso t0 te_raw = Inr t1"
    and tw: "truncate_window now t0 t1 = Inr (time_start v, time_end v)"
    by blast
  have e: "tzinfo (time_end v) = None" using truncate_window_naive_end [OF tw] .
  have s: "time_start v = truncate_5min t0" using truncate_window_start [OF tw] .
  show ?thesis
  proof (cases t1)
    case None
    with tw have "dt_add (time_start v) (hours 1) = Inr (time_end v)"
      using truncate_window_default by simp
    from dt_add_tzinfo [OF this] e show ?thesis by simp
  next
    case (Some d)
    with tw have te: "time_end v = truncate_5min d" using truncate_window_end by simp
    from p1 Some have "\<exists>x. dt_less d t0 = Inr x"
      by (auto simp: parse_time_end_def and_then_Inr_iff split: pyval.splits option.splits if_splits)
    then obtain x where "dt_less d t0 = Inr x" by blast
    from dt_less_Inr_same [OF this] te e s show ?thesis by simp
  qed
qed








lemma check_bucket_destination_Inr:
  "check_bucket_destination b = Inr u \<Longrightarrow> b = VNone \<or> (\<exists>s. b = VStr s)"
  by (auto simp: check_bucket_destination_def split: pyval.splits if_splits)

section \<open>Claims about the argument validation\<close>





section \<open>Facts about the retrieval\<close>




lemma extract_level_value:
  "extract_level loads level =
      Inr (case loads level of
             Inr (VDict kvs) \<Rightarrow> (case map_of kvs ''LIVELLO'' of Some v \<Rightarrow> v | None \<Rightarrow> VNaN)
           | _ \<Rightarrow> VNaN)"
  by (simp add: extract_level_def dict_get_def and_then_def split: sum.splits pyval.splits option.splits)

lemma decode_row_total: "\<exists>r. decode_row w rd = Inr r"
  by (simp add: decode_row_def extract_level_value)

lemma map_result_total:
  assumes "\<And>x. \<exists>y. f x = Inr y"
  shows "\<exists>ys. map_result f xs = Inr ys \<and> length ys = length xs"
proof (induction xs)
  case Nil
  show ?case by simp
next
  case (Cons x xs)
  from assms obtain y where "f x = Inr y" by blast
  moreover from Cons obtain ys where "map_result f xs = Inr ys" "length ys = length xs" by blast
  ultimately show ?case by simp
qed

lemma fetch_hours_abort:
  assumes "\<forall>k \<in> set pre. \<exists>r rows. http_get w k = Inr r \<and> resp_status r = 200 \<and> data_rows w r = Inr rows"
    and "http_get w h = Inr resp" and "resp_status resp \<noteq> 200"
  shows "fetch_hours w (pre @ h # post) st =
           (Inl (upstream_error resp), st\<lparr> requests := requests st @ pre @ [h] \<rparr>)"
  using assms(1)
proof (induction pre arbitrary: st)
  case Nil
  show ?case using assms(2,3) by (simp add: Let_def)
next
  case (Cons k pre)
  from Cons.prems obtain r rows where
    r: "http_get w k = Inr r" "resp_status r = 200" "data_rows w r = Inr rows"
    by auto
  from Cons.prems have "\<forall>k \<in> set pre. \<exists>r rows. http_get w k = Inr r \<and> resp_status r = 200 \<and> data_rows w r = Inr rows"
    by simp
  from Cons.IH [OF this] show ?case using r by (simp add: Let_def)
qed

lemma fetch_hours_frame:
  "fetch_hours w hs st = (r, st') \<Longrightarrow>
     dirs st' = dirs st \<and> files st' = files st \<and> uploads st' = uploads st"
proof (induction hs arbitrary: st r st')
  case Nil
  then show ?case by simp
next
  case (Cons h hs)
  show ?case
  proof (cases "http_get w h")
    case (Inl e)
    with Cons.prems show ?thesis by (auto simp: Let_def)
  next
    case (Inr resp)
    show ?thesis
    proof (cases "resp_status resp = 200")
      case False
      with Inr Cons.prems show ?thesis by (auto simp: Let_def)
    next
      case True
      show ?thesis
      proof (cases "data_rows w resp")
        case (Inl e)
        with Inr True Cons.prems show ?thesis by (auto simp: Let_def)
      next
        case df: (Inr df)
        obtain r2 st2 where f: "fetch_hours w hs (st\<lparr>requests := requests st @ [h]\<rparr>) = (r2, st2)"
          by (cases "fetch_hours w hs (st\<lparr>requests := requests st @ [h]\<rparr>)") auto
        from Cons.IH [OF f] have
          "dirs st2 = dirs st \<and> files st2 = files st \<and> uploads st2 = uploads st" by simp
        moreover from Cons.prems Inr True df f have "st' = st2"
          by (auto simp: Let_def split: sum.splits)
        ultimately show ?thesis by simp
      qed
    qed
  qed
qed

lemma retrieve_data_frame:
  "retrieve_data w n1 n2 st lat long ts te = (r, st') \<Longrightarrow>
     dirs st' = dirs st \<and> files st' = files st \<and> uploads st' = uploads st"
  unfolding retrieve_data_def
  by (auto split: sum.splits prod.splits dest: fetch_hours_frame)


section \<open>Claims about the retrieval\<close>



text \<open>
  Claim C6. For every payload and every behaviour of \<^verbatim>\<open>json.loads\<close>,
  \<^verbatim>\<open>extract_level\<close> returns a value: the entry \<^verbatim>\<open>LIVELLO\<close> when the payload parses
  to a dict that has it, and \<^verbatim>\<open>nan\<close> in every other case (no parse, no dict, no
  key). So decoding the rows of a frame never raises, and keeps every row.
\<close>

theorem extract_level_never_raises:
  "extract_level loads level =
      Inr (case loads level of
             Inr (VDict kvs) \<Rightarrow> (case map_of kvs ''LIVELLO'' of Some v \<Rightarrow> v | None \<Rightarrow> VNaN)
           | _ \<Rightarrow> VNaN)
   \<and> (\<exists>gdf. map_result (decode_row w) rows = Inr gdf \<and> length gdf = length rows)"
  using extract_level_value map_result_total [of "decode_row w" rows] decode_row_total by blast

text \<open>
  A payload with a level, text that is no JSON, JSON that is no dict, a dict without the
  key, and a null payload.
\<close>

theorem extract_level_never_raises_witness:
  "extract_level example_loads (VStr ''{\"LIVELLO\": 1.5}'') = Inr (VFloat 1.5)
   \<and> extract_level example_loads (VStr ''n/a'') = Inr VNaN
   \<and> extract_level example_loads (VStr ''[1]'') = Inr VNaN
   \<and> extract_level example_loads (VStr ''{}'') = Inr VNaN
   \<and> extract_level example_loads VNone = Inr VNaN"
  using extract_level_never_raises [THEN conjunct1, of example_loads "VStr ''{\"LIVELLO\": 1.5}''"]
        extract_level_never_raises [THEN conjunct1, of example_loads "VStr ''n/a''"]
        extract_level_never_raises [THEN conjunct1, of example_loads "VStr ''[1]''"]
        extract_level_never_raises [THEN conjunct1, of example_loads "VStr ''{}''"]
        extract_level_never_raises [THEN conjunct1, of example_loads VNone]
  by (simp add: example_loads_def)

text \<open>
  Claim C3. Let the fetch sequence be \<open>pre @ h # post\<close>, let every bucket of \<open>pre\<close> answer
  200 with rows that can be read, and let bucket \<open>h\<close> answer with a status other than
  200. Then \<^verbatim>\<open>retrieve_data\<close> raises the ERROR status exception whose message carries
  the status code and the body text of that response; it returns no rows; and the
  requests made are those of \<open>pre\<close> and the one of \<open>h\<close>, each once, none after it.
\<close>

theorem non_200_aborts_retrieval:
  "hour_buckets now1 now2 ts te = Inr (pre @ h # post)
   \<and> (\<forall>k \<in> set pre. \<exists>r rows. http_get w k = Inr r \<and> resp_status r = 200 \<and> data_rows w r = Inr rows)
   \<and> http_get w h = Inr resp \<and> resp_status resp \<noteq> 200
   \<longrightarrow> retrieve_data w now1 now2 st lat long ts te =
         (Inl (StatusException ERROR
                 (''Failed to retrieve data from ARPAV service: '' @ str_int (resp_status resp)
                    @ '' - '' @ resp_text resp)),
          st\<lparr> requests := requests st @ pre @ [h] \<rparr>)"
proof
  assume a: "hour_buckets now1 now2 ts te = Inr (pre @ h # post)
   \<and> (\<forall>k \<in> set pre. \<exists>r rows. http_get w k = Inr r \<and> resp_status r = 200 \<and> data_rows w r = Inr rows)
   \<and> http_get w h = Inr resp \<and> resp_status resp \<noteq> 200"
  then have "fetch_hours w (pre @ h # post) st =
           (Inl (upstream_error resp), st\<lparr> requests := requests st @ pre @ [h] \<rparr>)"
    using fetch_hours_abort [of pre w h resp post st] by blast
  with a show "retrieve_data w now1 now2 st lat long ts te =
         (Inl (StatusException ERROR
                 (''Failed to retrieve data from ARPAV service: '' @ str_int (resp_status resp)
                    @ '' - '' @ resp_text resp)),
          st\<lparr> requests := requests st @ pre @ [h] \<rparr>)"
    by (simp add: retrieve_data_def upstream_error_def)
qed

text \<open>
  Buckets -3 and -2, the first answered with 200, the second with 500.
\<close>

theorem non_200_aborts_retrieval_witness:
  "hour_buckets noon noon (datetime 2025 7 23 9 0 0) (Some (datetime 2025 7 23 10 55 0))
     = Inr [- 3, - 2]
   \<and> http_get failing_world (- 3) = Inr ok_response \<and> resp_status ok_response = 200
   \<and> http_get failing_world (- 2) = Inr error_response \<and> resp_status error_response = 500
   \<and> retrieve_data failing_world noon noon empty_state VNone VNone
        (datetime 2025 7 23 9 0 0) (Some (datetime 2025 7 23 10 55 0))
       = (Inl (StatusException ERROR
                 ''Failed to retrieve data from ARPAV service: 500 - Internal Server Error''),
          \<lparr> dirs = [], files = [], requests = [- 3, - 2], uploads = [] \<rparr>)"
proof -
  have hb: "hour_buckets noon noon (datetime 2025 7 23 9 0 0) (Some (datetime 2025 7 23 10 55 0))
     = Inr ([- 3] @ (- 2) # [])" by code_simp
  have g: "http_get failing_world (- 3) = Inr ok_response" "resp_status ok_response = 200"
    "data_rows failing_world ok_response = Inr api_rows"
    "http_get failing_world (- 2) = Inr error_response" "resp_status error_response = 500"
    by (simp_all add: failing_world_def serving_world_def ok_response_def error_response_def)
  have pre: "\<forall>k \<in> set [- 3]. \<exists>r rows. http_get failing_world k = Inr r \<and> resp_status r = 200
               \<and> data_rows failing_world r = Inr rows"
    using g by simp
  have ne: "resp_status error_response \<noteq> 200" using g by simp
  from non_200_aborts_retrieval
         [of noon noon "datetime 2025 7 23 9 0 0" "Some (datetime 2025 7 23 10 55 0)"
             "[- 3]" "- 2" "[]" failing_world error_response empty_state VNone VNone]
       hb pre g(4) ne
  have "retrieve_data failing_world noon noon empty_state VNone VNone
          (datetime 2025 7 23 9 0 0) (Some (datetime 2025 7 23 10 55 0))
        = (Inl (StatusException ERROR
                 (''Failed to retrieve data from ARPAV service: ''
                    @ str_int (resp_status error_response) @ '' - '' @ resp_text error_response)),
           empty_state\<lparr> requests := requests empty_state @ [- 3] @ [- 2] \<rparr>)"
    by blast
  then have "retrieve_data failing_world noon noon empty_state VNone VNone
        (datetime 2025 7 23 9 0 0) (Some (datetime 2025 7 23 10 55 0))
       = (Inl (StatusException ERROR
                 ''Failed to retrieve data from ARPAV service: 500 - Internal Server Error''),
          \<lparr> dirs = [], files = [], requests = [- 3, - 2], uploads = [] \<rparr>)"
    by (simp add: error_response_def str_int_500 empty_state_def)
  with hb g show ?thesis by simp
qed

section \<open>Claims about the FeatureCollection\<close>

text \<open>Every key of the grouping has a row, so \<open>hd\<close> in \<open>build_feature\<close> reads a row of
  the station.\<close>

lemma station_group_nonempty:
  "k \<in> set (station_keys rows) \<Longrightarrow> station_group k rows \<noteq> []"
  by (auto simp: station_keys_def station_group_def List.map_filter_def filter_empty_conv)






section \<open>Facts about run\<close>

lemma startswith_append [simp]: "startswith (p @ s) p"
  by (simp add: startswith_def)











lemma garbage_folders_removes:
  "tmp \<notin> set (dirs (garbage_folders tmp st))
   \<and> (\<forall>p \<in> set (dirs (garbage_folders tmp st)) \<union> set (files (garbage_folders tmp st)).
         \<not> inside_folder tmp p)"
  by (auto simp: garbage_folders_def inside_folder_def)

lemma run_state: "\<exists>st1. snd (run w st kw) = garbage_folders (tmp_data_folder w) st1"
  by (auto simp: run_def split: sum.splits prod.splits)

lemma run_validation_failure:
  "argument_validation (fromisoformat w) (clock w 0) st kw = (Inl e, st1) \<Longrightarrow>
     run w st kw = (Inl (wrap_exception e), garbage_folders (tmp_data_folder w) st1)"
  by (simp add: run_def run_body_def)

lemma run_upstream_failure:
  assumes "argument_validation (fromisoformat w) (clock w 0) st kw = (Inr v, st1)"
    and "hour_buckets (clock w 1) (clock w 2) (time_start v) (Some (time_end v)) = Inr (pre @ h # post)"
    and "\<forall>k \<in> set pre. \<exists>r rows. http_get w k = Inr r \<and> resp_status r = 200 \<and> data_rows w r = Inr rows"
    and "http_get w h = Inr resp" and "resp_status resp \<noteq> 200"
  shows "run w st kw = (Inl (wrap_exception (upstream_error resp)),
           garbage_folders (tmp_data_folder w) (st1\<lparr> requests := requests st1 @ pre @ [h] \<rparr>))"
proof -
  have "fetch_hours w (pre @ h # post) st1 =
           (Inl (upstream_error resp), st1\<lparr> requests := requests st1 @ pre @ [h] \<rparr>)"
    using fetch_hours_abort [OF assms(3,4,5)] .
  with assms(1,2) show ?thesis
    by (simp add: run_def run_body_def retrieve_data_def)
qed

text \<open>
  \<^verbatim>\<open>run\<close> raises nothing but the ERROR status exception: line 339 catches the INVALID
  status exception of its own validation as well.
\<close>

lemma run_never_invalid:
  "fst (run w st kw) \<noteq> Inl (StatusException INVALID m)
   \<and> fst (run w st kw) \<noteq> Inl (StatusException DENIED m)"
  by (auto simp: run_def wrap_exception_def split: sum.splits prod.splits)

section \<open>Claims about run\<close>



text \<open>
  Claim C9. Whatever \<^verbatim>\<open>run\<close> is given and however it ends, the state it leaves has
  neither the temporary folder nor anything under it. A validation failure is
  raised as the wrapped error, and so is an upstream failure: when the bucket \<open>h\<close>
  answers 500 after the buckets before it were fetched, \<^verbatim>\<open>run\<close> raises the ERROR status
  exception that carries the status code and the body text.
\<close>

theorem tmp_folder_removed_on_every_exit:
  "tmp_data_folder w \<notin> set (dirs (snd (run w st kw)))
   \<and> (\<forall>p \<in> set (dirs (snd (run w st kw))) \<union> set (files (snd (run w st kw))).
         \<not> inside_folder (tmp_data_folder w) p)
   \<and> (argument_validation (fromisoformat w) (clock w 0) st kw = (Inl e, st1) \<longrightarrow>
         fst (run w st kw) = Inl (StatusException ERROR
            (''An error occurred while running the ARPAV Retriever: '' @ str_exc e)))
   \<and> (argument_validation (fromisoformat w) (clock w 0) st kw = (Inr v, st1)
       \<and> hour_buckets (clock w 1) (clock w 2) (time_start v) (Some (time_end v))
            = Inr (pre @ h # post)
       \<and> (\<forall>k \<in> set pre. \<exists>r rows. http_get w k = Inr r \<and> resp_status r = 200
                                  \<and> data_rows w r = Inr rows)
       \<and> http_get w h = Inr resp \<and> resp_status resp = 500 \<longrightarrow>
         fst (run w st kw) = Inl (StatusException ERROR
            (''An error occurred while running the ARPAV Retriever: ''
               @ ''Failed to retrieve data from ARPAV service: 500 - '' @ resp_text resp)))"
proof -
  obtain s where s: "snd (run w st kw) = garbage_folders (tmp_data_folder w) s"
    using run_state by blast
  have 1: "tmp_data_folder w \<notin> set (dirs (snd (run w st kw)))"
    unfolding s using garbage_folders_removes by blast
  have 2: "\<forall>p \<in> set (dirs (snd (run w st kw))) \<union> set (files (snd (run w st kw))).
         \<not> inside_folder (tmp_data_folder w) p"
    unfolding s using garbage_folders_removes by blast
  have 3: "argument_validation (fromisoformat w) (clock w 0) st kw = (Inl e, st1) \<longrightarrow>
         fst (run w st kw) = Inl (StatusException ERROR
            (''An error occurred while running the ARPAV Retriever: '' @ str_exc e))"
    by (simp add: run_validation_failure wrap_exception_def)
  have 4: "argument_validation (fromisoformat w) (clock w 0) st kw = (Inr v, st1)
       \<and> hour_buckets (clock w 1) (clock w 2) (time_start v) (Some (time_end v))
            = Inr (pre @ h # post)
       \<and> (\<forall>k \<in> set pre. \<exists>r rows. http_get w k = Inr r \<and> resp_status r = 200
                                  \<and> data_rows w r = Inr rows)
       \<and> http_get w h = Inr resp \<and> resp_status resp = 500 \<longrightarrow>
         fst (run w st kw) = Inl (StatusException ERROR
            (''An error occurred while running the ARPAV Retriever: ''
               @ ''Failed to retrieve data from ARPAV service: 500 - '' @ resp_text resp))"
  proof
    assume a: "argument_validation (fromisoformat w) (clock w 0) st kw = (Inr v, st1)
       \<and> hour_buckets (clock w 1) (clock w 2) (time_start v) (Some (time_end v))
            = Inr (pre @ h # post)
       \<and> (\<forall>k \<in> set pre. \<exists>r rows. http_get w k = Inr r \<and> resp_status r = 200
                                  \<and> data_rows w r = Inr rows)
       \<and> http_get w h = Inr resp \<and> resp_status resp = 500"
    then have "resp_status resp \<noteq> 200" by simp
    with a have "run w st kw = (Inl (wrap_exception (upstream_error resp)),
           garbage_folders (tmp_data_folder w) (st1\<lparr> requests := requests st1 @ pre @ [h] \<rparr>))"
      using run_upstream_failure [of w st kw v st1 pre h post resp] by blast
    with a show "fst (run w st kw) = Inl (StatusException ERROR
            (''An error occurred while running the ARPAV Retriever: ''
               @ ''Failed to retrieve data from ARPAV service: 500 - '' @ resp_text resp))"
      by (simp add: wrap_exception_def upstream_error_def str_int_500)
  qed
  show ?thesis by (rule conjI [OF 1 conjI [OF 2 conjI [OF 3 4]]])
qed

text \<open>
  The scenario request against an upstream that answers 500: the folder exists before the
  run and is gone after it. It is gone as well after the successful run and after the
  run that fails validation.
\<close>

theorem tmp_folder_removed_witness:
  "tmp_data_folder failing_world \<in> set (dirs ready_state)
   \<and> run failing_world ready_state scenario_kwargs
       = (Inl (StatusException ERROR
                ''An error occurred while running the ARPAV Retriever: Failed to retrieve data from ARPAV service: 500 - Internal Server Error''),
          swept_state)
   \<and> tmp_data_folder failing_world \<notin> set (dirs swept_state)
   \<and> dirs (snd (run serving_world ready_state scenario_kwargs)) = []
   \<and> dirs (snd (run serving_world ready_state
                   (scenario_kwargs\<lparr>kw_lat_range := VList [VInt 10, VInt 5]\<rparr>))) = []"
proof -
  have a: "tmp_data_folder failing_world \<in> set (dirs ready_state)" by code_simp
  have b: "run failing_world ready_state scenario_kwargs
       = (Inl (StatusException ERROR
                ''An error occurred while running the ARPAV Retriever: Failed to retrieve data from ARPAV service: 500 - Internal Server Error''),
          swept_state)" by code_simp
  have c: "dirs (snd (run serving_world ready_state scenario_kwargs)) = []" by code_simp
  have d: "dirs (snd (run serving_world ready_state
                   (scenario_kwargs\<lparr>kw_lat_range := VList [VInt 10, VInt 5]\<rparr>))) = []"
    by code_simp
  have v: "argument_validation (fromisoformat failing_world) (clock failing_world 0) ready_state
             scenario_kwargs = (Inr scenario_validated, ready_state)" by code_simp
  have hb: "hour_buckets (clock failing_world 1) (clock failing_world 2)
              (time_start scenario_validated) (Some (time_end scenario_validated))
            = Inr ([] @ (- 2) # [])" by code_simp
  have g: "http_get failing_world (- 2) = Inr error_response" "resp_status error_response = 500"
    by (simp_all add: failing_world_def error_response_def)
  note t = tmp_folder_removed_on_every_exit
             [where w = failing_world and st = ready_state and kw = scenario_kwargs
                and v = scenario_validated and ?st1.0 = ready_state and pre = "[]"
                and h = "- 2" and post = "[]" and resp = error_response]
  from t b have "tmp_data_folder failing_world \<notin> set (dirs swept_state)" by simp
  moreover from t v hb g have "fst (run failing_world ready_state scenario_kwargs)
       = Inl (StatusException ERROR
            (''An error occurred while running the ARPAV Retriever: ''
               @ ''Failed to retrieve data from ARPAV service: 500 - '' @ resp_text error_response))"
    by simp
  ultimately have "tmp_data_folder failing_world \<notin> set (dirs swept_state)" by simp
  with a b c d show ?thesis by simp
qed

section \<open>Claims about the processor\<close>

lemma proc_denied:
  "data_get data ''token'' VNone = VNone \<or> data_get data ''token'' VNone \<noteq> VStr (expected_token w)
   \<Longrightarrow> proc_argument_validation w data self st
         = (Inl (StatusException DENIED ''ACCESS DENIED: wrong token''), self, st)"
  by (auto simp: proc_argument_validation_def raise_status_def Let_def)

lemma proc_not_denied:
  "\<not> (data_get data ''token'' VNone = VNone \<or> data_get data ''token'' VNone \<noteq> VStr (expected_token w))
   \<Longrightarrow> fst (proc_argument_validation w data self st) \<noteq> Inl (StatusException DENIED m)"
  by (auto simp: proc_argument_validation_def raise_status_def Let_def os_path_exists_object_def
           split: pyval.splits if_splits)

text \<open>
  The processor's validation never returns normally: a request that passes the checks of
  lines 182-194 reaches line 198, where the retriever class is given to
  \<^verbatim>\<open>os.path.exists\<close>.
\<close>

lemma proc_argument_validation_never_returns:
  "fst (proc_argument_validation w data self st) \<noteq> Inr u"
  by (auto simp: proc_argument_validation_def raise_status_def Let_def os_path_exists_object_def
           split: pyval.splits if_splits)

text \<open>
  Claim C10. The processor's validation raises the DENIED status exception exactly when
  the token is absent (or null) or is not the string that \<^verbatim>\<open>INT_API_TOKEN\<close> holds; when
  the variable is unset that string is \<^verbatim>\<open>"token"\<close>, so a request with the token
  \<^verbatim>\<open>"token"\<close> is not denied.
\<close>

theorem access_denied_exactly_on_token_mismatch:
  "((\<exists>m. fst (proc_argument_validation w data self st) = Inl (StatusException DENIED m))
      \<longleftrightarrow> (data_get data ''token'' VNone = VNone
           \<or> data_get data ''token'' VNone \<noteq> VStr (expected_token w)))
   \<and> expected_token w = (case int_api_token w of None \<Rightarrow> ''token'' | Some t \<Rightarrow> t)
   \<and> (int_api_token w = None \<and> data_get data ''token'' VNone = VStr ''token'' \<longrightarrow>
        (\<forall>m. fst (proc_argument_validation w data self st) \<noteq> Inl (StatusException DENIED m)))"
proof -
  have 1: "(\<exists>m. fst (proc_argument_validation w data self st) = Inl (StatusException DENIED m))
      \<longleftrightarrow> (data_get data ''token'' VNone = VNone
           \<or> data_get data ''token'' VNone \<noteq> VStr (expected_token w))"
    using proc_denied [of data w self st] proc_not_denied [of data w self st]
    by (metis fst_conv)
  have 2: "expected_token w = (case int_api_token w of None \<Rightarrow> ''token'' | Some t \<Rightarrow> t)"
    by (simp add: expected_token_def)
  have 3: "int_api_token w = None \<and> data_get data ''token'' VNone = VStr ''token'' \<longrightarrow>
        (\<forall>m. fst (proc_argument_validation w data self st) \<noteq> Inl (StatusException DENIED m))"
    using proc_not_denied [of data w self st] by (auto simp: expected_token_def)
  show ?thesis by (rule conjI [OF 1 conjI [OF 2 3]])
qed

text \<open>
  With the variable unset: a wrong token and no token are denied, the token
  \<^verbatim>\<open>"token"\<close> passes the access check (the next check fails). With the variable set,
  the token \<^verbatim>\<open>"token"\<close> is denied.
\<close>

theorem access_denied_witness:
  "fst (proc_argument_validation serving_world [(''token'', VStr ''guess'')] fresh_processor empty_state)
     = Inl (StatusException DENIED ''ACCESS DENIED: wrong token'')
   \<and> fst (proc_argument_validation serving_world [] fresh_processor empty_state)
     = Inl (StatusException DENIED ''ACCESS DENIED: wrong token'')
   \<and> fst (proc_argument_validation serving_world [(''token'', VStr ''token'')] fresh_processor
            empty_state)
     = Inl (StatusException INVALID ''variable must be provided'')
   \<and> fst (proc_argument_validation (serving_world\<lparr>int_api_token := Some ''s3cret''\<rparr>)
            [(''token'', VStr ''token'')] fresh_processor empty_state)
     = Inl (StatusException DENIED ''ACCESS DENIED: wrong token'')"
proof -
  have a: "fst (proc_argument_validation serving_world [(''token'', VStr ''guess'')] fresh_processor empty_state)
     = Inl (StatusException DENIED ''ACCESS DENIED: wrong token'')" by code_simp
  have b: "fst (proc_argument_validation serving_world [] fresh_processor empty_state)
     = Inl (StatusException DENIED ''ACCESS DENIED: wrong token'')" by code_simp
  have c: "fst (proc_argument_validation serving_world [(''token'', VStr ''token'')] fresh_processor
            empty_state)
     = Inl (StatusException INVALID ''variable must be provided'')" by code_simp
  have t: "data_get [(''token'', VStr ''token'')] ''token'' VNone \<noteq> VStr (expected_token (serving_world\<lparr>int_api_token := Some ''s3cret''\<rparr>))"
    by (simp add: data_get_def expected_token_def)
  from access_denied_exactly_on_token_mismatch
         [THEN conjunct1, of "serving_world\<lparr>int_api_token := Some ''s3cret''\<rparr>"
            "[(''token'', VStr ''token'')]" fresh_processor empty_state] t
  obtain m where "fst (proc_argument_validation (serving_world\<lparr>int_api_token := Some ''s3cret''\<rparr>)
            [(''token'', VStr ''token'')] fresh_processor empty_state)
     = Inl (StatusException DENIED m)" by blast
  moreover have "fst (proc_argument_validation (serving_world\<lparr>int_api_token := Some ''s3cret''\<rparr>)
            [(''token'', VStr ''token'')] fresh_processor empty_state)
     = Inl (StatusException DENIED ''ACCESS DENIED: wrong token'')"
    using t by (simp add: proc_denied)
  ultimately show ?thesis using a b c by simp
qed

text \<open>
  Claim C1, at a request with a good token, the variable \<^verbatim>\<open>water_level\<close> and the
  inverted latitude range \<open>[10, 5]\<close>: \<^verbatim>\<open>execute\<close> does not return a payload with the
  status INVALID, it raises ProcessorExecuteError; and \<^verbatim>\<open>run\<close> on the same arguments
  raises the ERROR status exception, not the INVALID one.
\<close>

theorem inverted_lat_range_not_reported_invalid:
  "(\<forall>precipitation_run.
      fst (execute serving_world precipitation_run inverted_lat_request fresh_processor empty_state)
        = Inl (PyExc ProcessorExecuteError
                 ''stat: path should be string, bytes, os.PathLike or integer''))
   \<and> fst (run serving_world ready_state (kwargs_of inverted_lat_request))
        = Inl (StatusException ERROR
           ''An error occurred while running the ARPAV Retriever: lat_range[0] must be less than lat_range[1]'')"
proof -
  have p: "proc_argument_validation serving_world inverted_lat_request fresh_processor empty_state
           = (Inl (PyExc TypeError ''stat: path should be string, bytes, os.PathLike or integer''),
              fresh_processor\<lparr> variable := VStr ''water_level'',
                                proc_tmp_data_folder := RetrieverClass ''water_level'' \<rparr>,
              empty_state)"
    by code_simp
  have 1: "\<forall>precipitation_run.
      fst (execute serving_world precipitation_run inverted_lat_request fresh_processor empty_state)
        = Inl (PyExc ProcessorExecuteError
                 ''stat: path should be string, bytes, os.PathLike or integer'')"
    by (simp add: execute_def p)
  have 2: "fst (run serving_world ready_state (kwargs_of inverted_lat_request))
        = Inl (StatusException ERROR
           ''An error occurred while running the ARPAV Retriever: lat_range[0] must be less than lat_range[1]'')"
    by code_simp
  show ?thesis by (rule conjI [OF 1 2])
qed

end
